theory Spec2Isabelle
  imports Main "HOL-Library.Sublist"
begin

section \<open>JavaScript strings\<close>

text \<open>
  A JavaScript string is a sequence of UTF-16 code units. The code units are natural
  numbers here; \<open>asc\<close> embeds an ASCII literal. The empty string is the only falsy string,
  which is what \<open>a || b\<close> tests (\<open>js_or\<close>).
\<close>

type_synonym jsstring = "nat list"

definition asc :: "string \<Rightarrow> jsstring" where
  "asc s = map of_char s"

definition js_or :: "jsstring \<Rightarrow> jsstring \<Rightarrow> jsstring" where
  "js_or a b = (if a = [] then b else a)"

text \<open>
  \<open>String.prototype.trim\<close> strips the ECMAScript white space and line terminator code
  points from both ends: TAB, LF, VT, FF, CR, SP, NBSP, U+1680, U+2000 to U+200A, U+2028,
  U+2029, U+202F, U+205F, U+3000 and U+FEFF.
\<close>

definition is_js_space :: "nat \<Rightarrow> bool" where
  "is_js_space c \<longleftrightarrow>
     c \<in> {9, 10, 11, 12, 13, 32, 160, 5760, 8232, 8233, 8239, 8287, 12288, 65279}
     \<or> (8192 \<le> c \<and> c \<le> 8202)"

definition trim :: "jsstring \<Rightarrow> jsstring" where
  "trim s = rev (dropWhile is_js_space (rev (dropWhile is_js_space s)))"

text \<open>A property that may be \<open>undefined\<close> is an option; \<open>a || b\<close> then yields \<open>b\<close> for
  \<open>undefined\<close> and for the empty string.\<close>

definition js_or_opt :: "jsstring option \<Rightarrow> jsstring \<Rightarrow> jsstring" where
  "js_or_opt a b = (case a of None \<Rightarrow> b | Some v \<Rightarrow> js_or v b)"

datatype js_exn = TypeError

section \<open>LanguageContext: the string tables\<close>

text \<open>
  The entries of a string table that ChatInterface reads; an entry the object does not have
  reads as \<open>undefined\<close>. The table object has the own keys \<open>en\<close> and \<open>es\<close>. It is a plain
  object literal, so indexing it with the name of a property of \<open>Object.prototype\<close> yields
  that property, a function or an object: a truthy value with none of the entries.
  Indexing it with any other string yields \<open>undefined\<close>.
\<close>

record table =
  welcome_message :: "jsstring option"
  error_message :: "jsstring option"
  error_response :: "jsstring option"
  feedback_success :: "jsstring option"
  feedback_error :: "jsstring option"

definition translations_en :: table where
  "translations_en = \<lparr>
     welcome_message = Some (asc ''Hello! I'm your Tax Intelligence Assistant. I can help you understand the Earned Income Tax Credit (EITC), check your eligibility, and answer questions about tax requirements. How can I assist you today?''),
     error_message = Some (asc ''Sorry, something went wrong. Please try again.''),
     error_response = Some (asc ''I apologize, but I encountered an error. Please try again or contact support if the problem persists.''),
     feedback_success = Some (asc ''Thank you for your feedback!''),
     feedback_error = Some (asc ''Failed to submit feedback. Please try again.'') \<rparr>"

definition translations_es :: table where
  "translations_es = \<lparr>
     welcome_message = Some ([161] @ asc ''Hola! Soy su Asistente de Inteligencia Fiscal. Puedo ayudarle a entender el Cr''
       @ [233] @ asc ''dito Tributario por Ingreso del Trabajo (EITC), verificar su elegibilidad y responder preguntas sobre requisitos fiscales. ''
       @ [191] @ asc ''C'' @ [243] @ asc ''mo puedo asistirle hoy?''),
     error_message = Some (asc ''Lo siento, algo sali'' @ [243] @ asc '' mal. Por favor, int''
       @ [233] @ asc ''ntelo de nuevo.''),
     error_response = Some (asc ''Me disculpo, pero encontr'' @ [233]
       @ asc '' un error. Por favor, int'' @ [233]
       @ asc ''ntelo de nuevo o contacte al soporte si el problema persiste.''),
     feedback_success = Some ([161] @ asc ''Gracias por sus comentarios!''),
     feedback_error = Some (asc ''Error al enviar comentarios. Por favor, int'' @ [233]
       @ asc ''ntelo de nuevo.'') \<rparr>"

definition no_entries :: table where
  "no_entries = \<lparr>welcome_message = None, error_message = None, error_response = None,
     feedback_success = None, feedback_error = None\<rparr>"

definition object_prototype_keys :: "jsstring list" where
  "object_prototype_keys = map asc
     [''constructor'', ''__defineGetter__'', ''__defineSetter__'', ''hasOwnProperty'',
      ''__lookupGetter__'', ''__lookupSetter__'', ''isPrototypeOf'', ''propertyIsEnumerable'',
      ''toString'', ''valueOf'', ''__proto__'', ''toLocaleString'']"

text \<open>\<open>translations[code]\<close>: \<open>None\<close> is \<open>undefined\<close>; otherwise what the value found
  gives for the entries.\<close>

definition translations_lookup :: "jsstring \<Rightarrow> table option" where
  "translations_lookup code =
     (if code = asc ''en'' then Some translations_en
      else if code = asc ''es'' then Some translations_es
      else if code \<in> set object_prototype_keys then Some no_entries
      else None)"

section \<open>Messages, requests and the state of the chat page\<close>

text \<open>
  A message id is the string \<open>'welcome'\<close> or a number taken from the clock. A timestamp is
  either the ISO rendering of a local clock reading or the string the service sent. Flags a
  message object does not carry are \<open>undefined\<close> in the source, which reads as false. The
  content of a message is \<open>undefined\<close> when it was read from an entry a table lacks.
\<close>

datatype msg_id = IdStr jsstring | IdNum int

datatype role = User | Assistant

datatype timestamp = ISOString int | ServerTime jsstring

record message =
  msgId :: msg_id
  msgType :: role
  content :: "jsstring option"
  timestamp :: timestamp
  isWelcome :: bool
  isError :: bool
  msgSessionId :: "jsstring option"

text \<open>The body of a chat request (its \<open>context\<close> is always the empty object) and of a
  feedback request, and the reply of the chat service.\<close>

record chat_request =
  req_message :: "jsstring option"
  req_session_id :: jsstring
  req_language :: jsstring

record feedback_request =
  fb_session_id :: jsstring
  fb_rating :: int
  fb_feedback_text :: jsstring
  fb_message_id :: "msg_id option"

record chat_response =
  resp_response :: jsstring
  resp_timestamp :: jsstring
  resp_session_id :: jsstring

datatype toast = ToastError jsstring | ToastSuccess jsstring

record sessionData =
  conversationCount :: int
  startTime :: timestamp
  lastActivity :: timestamp

text \<open>
  The state the chat page works on: the values it reads from LanguageContext (the language
  code and the table found for it) and SessionContext, the component state of
  ChatInterface, the chat mutation, and the effects the page has issued, in order: requests
  posted to the chat and feedback endpoints, and toasts shown. Of the chat mutation the
  state holds the loading flag and the table its callbacks see: the callbacks of a mutation
  are the closures of the render in which \<open>mutate\<close> was called, so they keep the table of
  that render when the language changes later. A handler that reads the clock takes the
  reading as its argument \<open>now\<close>: \<open>Date.now()\<close> and \<open>new Date()\<close> inside one handler see
  the same instant. Numbers are unbounded integers.
\<close>

record app =
  language :: jsstring
  currentTable :: table
  sessionId :: jsstring
  sessionData :: sessionData
  messages :: "message list"
  inputMessage :: jsstring
  showFeedback :: bool
  selectedMessageId :: "msg_id option"
  isLoading :: bool
  mutationTable :: table
  chat_requests :: "chat_request list"
  feedback_requests :: "feedback_request list"
  toasts :: "toast list"

section \<open>SessionContext\<close>

definition initialSessionData :: "int \<Rightarrow> sessionData" where
  "initialSessionData now =
     \<lparr>conversationCount = 0, startTime = ISOString now, lastActivity = ISOString now\<rparr>"

definition updateActivity :: "int \<Rightarrow> app \<Rightarrow> app" where
  "updateActivity now s =
     s\<lparr>sessionData := (sessionData s)\<lparr>lastActivity := ISOString now\<rparr>\<rparr>"


section \<open>ChatInterface\<close>

text \<open>The welcome effect: it runs when the component mounts and again whenever the
  language changes, and sets the log to the welcome message alone.\<close>

definition welcomeMessage :: "table \<Rightarrow> int \<Rightarrow> message" where
  "welcomeMessage t now =
     \<lparr>msgId = IdStr (asc ''welcome''), msgType = Assistant,
      content = welcome_message t, timestamp = ISOString now,
      isWelcome = True, isError = False, msgSessionId = None\<rparr>"

definition welcome_effect :: "int \<Rightarrow> app \<Rightarrow> app" where
  "welcome_effect now s = s\<lparr>messages := [welcomeMessage (currentTable s) now]\<rparr>"

text \<open>
  The page once mounted, for a language code and the table found for it, and mounting
  itself: the LanguageProvider starts from the saved language, or \<open>en\<close>; when the table
  object has nothing for that code the first render reads an entry of \<open>undefined\<close> and
  throws.
\<close>

definition mounted :: "jsstring \<Rightarrow> table \<Rightarrow> jsstring \<Rightarrow> int \<Rightarrow> app" where
  "mounted l t sid now = welcome_effect now
     \<lparr>language = l, currentTable = t, sessionId = sid,
      sessionData = initialSessionData now,
      messages = [], inputMessage = [], showFeedback = False, selectedMessageId = None,
      isLoading = False, mutationTable = t, chat_requests = [], feedback_requests = [],
      toasts = []\<rparr>"

definition mount :: "jsstring option \<Rightarrow> jsstring \<Rightarrow> int \<Rightarrow> js_exn + app" where
  "mount savedLanguage sid now =
     (let l = js_or_opt savedLanguage (asc ''en'')
      in case translations_lookup l of
           None \<Rightarrow> Inl TypeError
         | Some t \<Rightarrow> Inr (mounted l t sid now))"

text \<open>\<open>changeLanguage\<close> of LanguageContext: a code for which the table object yields
  nothing truthy is ignored; setting the language that is already active changes no state,
  so no effect runs.\<close>

definition changeLanguage :: "jsstring \<Rightarrow> int \<Rightarrow> app \<Rightarrow> app" where
  "changeLanguage newLanguage now s =
     (case translations_lookup newLanguage of
        None \<Rightarrow> s
      | Some t \<Rightarrow>
          if newLanguage = language s then s
          else welcome_effect now (s\<lparr>language := newLanguage, currentTable := t\<rparr>))"

text \<open>The chat mutation. \<open>mutate\<close> posts the request, raises the loading flag and fixes
  the callbacks; the two callbacks append the terminal message of the exchange; when the
  request settles the callback for its outcome runs and the loading flag drops.\<close>

definition chatMutation_mutate :: "chat_request \<Rightarrow> app \<Rightarrow> app" where
  "chatMutation_mutate messageData s =
     s\<lparr>isLoading := True, mutationTable := currentTable s,
       chat_requests := chat_requests s @ [messageData]\<rparr>"

definition onSuccess :: "chat_response \<Rightarrow> int \<Rightarrow> app \<Rightarrow> app" where
  "onSuccess response now s =
     (let assistantMessage =
        \<lparr>msgId = IdNum (now + 1), msgType = Assistant,
         content = Some (resp_response response),
         timestamp = ServerTime (resp_timestamp response), isWelcome = False, isError = False,
         msgSessionId = Some (resp_session_id response)\<rparr>
      in s\<lparr>messages := messages s @ [assistantMessage]\<rparr>)"

definition onError :: "table \<Rightarrow> int \<Rightarrow> app \<Rightarrow> app" where
  "onError t now s =
     (let s1 = s\<lparr>toasts := toasts s @ [ToastError (js_or_opt (error_message t)
                  (asc ''Sorry, something went wrong. Please try again.''))]\<rparr>;
          errorMessage =
            \<lparr>msgId = IdNum (now + 1), msgType = Assistant,
             content = Some (js_or_opt (error_response t)
               (asc ''I apologize, but I encountered an error. Please try again or contact support if the problem persists.'')),
             timestamp = ISOString now, isWelcome = False, isError = True,
             msgSessionId = None\<rparr>
      in s1\<lparr>messages := messages s1 @ [errorMessage]\<rparr>)"

datatype 'e outcome = Failure 'e | Success chat_response

definition settle :: "'e outcome \<Rightarrow> int \<Rightarrow> app \<Rightarrow> app" where
  "settle out now s =
     (if isLoading s then
        (case out of
           Success response \<Rightarrow> (onSuccess response now s)\<lparr>isLoading := False\<rparr>
         | Failure e \<Rightarrow> (onError (mutationTable s) now s)\<lparr>isLoading := False\<rparr>)
      else s)"

definition handleSendMessage :: "int \<Rightarrow> app \<Rightarrow> app" where
  "handleSendMessage now s =
     (if trim (inputMessage s) = [] \<or> isLoading s then s
      else
        let userMessage =
              \<lparr>msgId = IdNum now, msgType = User, content = Some (trim (inputMessage s)),
               timestamp = ISOString now, isWelcome = False, isError = False,
               msgSessionId = None\<rparr>;
            s1 = s\<lparr>messages := messages s @ [userMessage], inputMessage := []\<rparr>
        in chatMutation_mutate
             \<lparr>req_message = content userMessage, req_session_id = sessionId s1,
              req_language = language s1\<rparr> s1)"

text \<open>Quick feedback. \<open>handleFeedback\<close> remembers the message id; a truthy rating posts
  a feedback request at once, a falsy one (\<open>0\<close> here) opens the detailed form.\<close>

definition feedbackMutation_mutate :: "feedback_request \<Rightarrow> app \<Rightarrow> app" where
  "feedbackMutation_mutate feedbackData s =
     s\<lparr>feedback_requests := feedback_requests s @ [feedbackData]\<rparr>"

definition handleFeedback :: "msg_id \<Rightarrow> int \<Rightarrow> app \<Rightarrow> app" where
  "handleFeedback messageId rating s =
     (let s1 = s\<lparr>selectedMessageId := Some messageId\<rparr>
      in if rating \<noteq> 0 then
           feedbackMutation_mutate
             \<lparr>fb_session_id = sessionId s1, fb_rating = rating, fb_feedback_text = [],
              fb_message_id = Some messageId\<rparr> s1
         else s1\<lparr>showFeedback := True\<rparr>)"

text \<open>MessageBubble renders the two rating buttons only under a message that is not from
  the user, not the welcome message and not an error message; the buttons call
  \<open>onFeedback\<close> with the id of that message and the rating 5 or 1.\<close>

definition feedback_offered :: "message \<Rightarrow> bool" where
  "feedback_offered m \<longleftrightarrow> \<not> (msgType m = User) \<and> \<not> isWelcome m \<and> \<not> isError m"

definition bubble_clicks :: "message \<Rightarrow> (msg_id \<times> int) list" where
  "bubble_clicks m = (if feedback_offered m then [(msgId m, 5), (msgId m, 1)] else [])"

definition offered_clicks :: "app \<Rightarrow> (msg_id \<times> int) list" where
  "offered_clicks s = concat (map bubble_clicks (messages s))"

text \<open>The operations of the page as events, each with the clock reading it sees:
  a new value of the input field (typed, or filled in by a quick action), a submit, the
  resolution of the chat request, the selection of a language, and a click on a rating
  button.\<close>

datatype 'e event =
    SetInput jsstring
  | Submit
  | Settle "'e outcome"
  | ChangeLanguage jsstring
  | Feedback msg_id int

fun step :: "'e event \<times> int \<Rightarrow> app \<Rightarrow> app" where
  "step (SetInput v, now) s = s\<lparr>inputMessage := v\<rparr>"
| "step (Submit, now) s = handleSendMessage now s"
| "step (Settle out, now) s = settle out now s"
| "step (ChangeLanguage code, now) s = changeLanguage code now s"
| "step (Feedback messageId rating, now) s = handleFeedback messageId rating s"

definition run :: "('e event \<times> int) list \<Rightarrow> app \<Rightarrow> app" where
  "run evs s = fold step evs s"

fun is_settle :: "'e event \<Rightarrow> bool" where
  "is_settle (Settle out) = True"
| "is_settle e = False"

fun is_language_change :: "'e event \<Rightarrow> bool" where
  "is_language_change (ChangeLanguage code) = True"
| "is_language_change e = False"

section \<open>The API layer\<close>

text \<open>
  What a rejected request carries: the response, when the server answered, with its status
  and its body; whether a request was made; and a message. A body that is \<open>null\<close> is
  \<open>None\<close>; the \<open>message\<close> field of a body may be absent.
\<close>

record payload =
  data_message :: "jsstring option"

record http_response =
  status :: int
  data :: "payload option"

record api_error =
  err_response :: "http_response option"
  err_request :: bool
  err_message :: "jsstring option"

text \<open>\<open>data.message || d\<close>: reading a property of a \<open>null\<close> body raises a TypeError.\<close>

definition message_or :: "http_response \<Rightarrow> jsstring \<Rightarrow> js_exn + jsstring" where
  "message_or r d =
     (case data r of None \<Rightarrow> Inl TypeError | Some p \<Rightarrow> Inr (js_or_opt (data_message p) d))"

definition handleAPIError :: "api_error \<Rightarrow> js_exn + jsstring" where
  "handleAPIError error =
     (case err_response error of
        Some r \<Rightarrow>
          if status r = 400 then
            message_or r (asc ''Invalid request. Please check your input.'')
          else if status r = 401 then
            Inr (asc ''Authentication required. Please log in.'')
          else if status r = 403 then
            Inr (asc ''Access denied. You do not have permission to perform this action.'')
          else if status r = 404 then
            Inr (asc ''The requested resource was not found.'')
          else if status r = 429 then
            Inr (asc ''Too many requests. Please wait a moment and try again.'')
          else if status r = 500 then
            Inr (asc ''Server error. Please try again later.'')
          else message_or r (asc ''An unexpected error occurred.'')
      | None \<Rightarrow>
          if err_request error then
            Inr (asc ''Network error. Please check your connection and try again.'')
          else Inr (js_or_opt (err_message error) (asc ''An unexpected error occurred.'')))"

subsection \<open>The response interceptor and AuthContext\<close>

text \<open>
  The browser state the interceptor and the AuthProvider share: local storage, the path of
  the current location, the location the code has assigned to \<open>window.location.href\<close>
  (if any), and the component state of the AuthProvider.
\<close>

record auth =
  isAuthenticated :: bool
  user :: "jsstring option"
  auth_isLoading :: bool

record client =
  localStorage :: "string \<Rightarrow> jsstring option"
  pathname :: string
  href_assigned :: "string option"
  authState :: auth

definition token_key :: string where
  "token_key = ''tax-intelligence-token''"

definition response_interceptor :: "api_error \<Rightarrow> client \<Rightarrow> client" where
  "response_interceptor error c =
     (if map_option status (err_response error) = Some 401 then
        let c1 = c\<lparr>localStorage := (localStorage c)(token_key := None)\<rparr>
        in if prefix ''/admin'' (pathname c1)
           then c1\<lparr>href_assigned := Some ''/admin/login''\<rparr>
           else c1
      else c)"

text \<open>The AuthProvider: its state after mounting (initial state, then the mount effect),
  and \<open>logout\<close>.\<close>

definition AuthProvider_mount :: "(string \<Rightarrow> jsstring option) \<Rightarrow> auth" where
  "AuthProvider_mount storage =
     (let a0 = \<lparr>isAuthenticated = False, user = None, auth_isLoading = True\<rparr>;
          a1 = (case storage token_key of
                  None \<Rightarrow> a0
                | Some token \<Rightarrow> if token \<noteq> [] then a0\<lparr>isAuthenticated := True\<rparr> else a0)
      in a1\<lparr>auth_isLoading := False\<rparr>)"

definition logout :: "client \<Rightarrow> client" where
  "logout c =
     c\<lparr>localStorage := (localStorage c)(token_key := None),
       authState := (authState c)\<lparr>isAuthenticated := False, user := None\<rparr>\<rparr>"

text \<open>Assigning \<open>window.location.href\<close> loads the page at the new location: the
  application starts again there and the AuthProvider mounts on the storage as it is.\<close>

definition follow_navigation :: "client \<Rightarrow> client" where
  "follow_navigation c =
     (case href_assigned c of
        None \<Rightarrow> c
      | Some target \<Rightarrow>
          c\<lparr>pathname := target, href_assigned := None,
            authState := AuthProvider_mount (localStorage c)\<rparr>)"

subsection \<open>withRetry\<close>

text \<open>
  The wrapped call is effectful: \<open>apiCall k\<close> is what its \<open>k\<close>-th invocation does, a
  rejection (\<open>Inl\<close>) or a result. The trace counts the invocations and lists the delays
  handed to \<open>setTimeout\<close>, in order. The loop throws \<open>lastError\<close>, which is still
  \<open>undefined\<close> (\<open>None\<close>) when the loop body never ran.
\<close>

record retry_trace =
  invocations :: nat
  delays :: "int list"

definition is_client_error :: "api_error \<Rightarrow> bool" where
  "is_client_error error =
     (case err_response error of
        None \<Rightarrow> False
      | Some r \<Rightarrow> status r \<ge> 400 \<and> status r < 500)"

function withRetry_loop ::
  "(nat \<Rightarrow> api_error + 'a) \<Rightarrow> nat \<Rightarrow> int \<Rightarrow> nat \<Rightarrow> api_error option \<Rightarrow> retry_trace
     \<Rightarrow> (api_error option + 'a) \<times> retry_trace" where
  "withRetry_loop apiCall maxRetries delay attempt lastError tr =
     (if attempt \<le> maxRetries then
        (let tr1 = tr\<lparr>invocations := Suc (invocations tr)\<rparr> in
         case apiCall (invocations tr1) of
           Inr v \<Rightarrow> (Inr v, tr1)
         | Inl error \<Rightarrow>
             if is_client_error error then (Inl (Some error), tr1)
             else withRetry_loop apiCall maxRetries delay (attempt + 1) (Some error)
                    (if attempt < maxRetries
                     then tr1\<lparr>delays := delays tr1 @ [delay * 2 ^ (attempt - 1)]\<rparr>
                     else tr1))
      else (Inl lastError, tr))"
  by pat_completeness auto
termination
  by (relation "measure (\<lambda>(apiCall, maxRetries, delay, attempt, lastError, tr).
        maxRetries + 1 - attempt)") auto

definition withRetry ::
  "(nat \<Rightarrow> api_error + 'a) \<Rightarrow> nat \<Rightarrow> int \<Rightarrow> (api_error option + 'a) \<times> retry_trace" where
  "withRetry apiCall maxRetries delay =
     withRetry_loop apiCall maxRetries delay 1 None \<lparr>invocations = 0, delays = []\<rparr>"

subsection \<open>withRateLimit\<close>

text \<open>
  The wrapper keeps one cursor, \<open>lastCall\<close>, initially 0. A call runs in two pieces, split
  at the \<open>await\<close>: on arrival it reads the clock and the cursor and either goes on at once or
  sets a timer for the remaining time; when it goes on (at once, or when its timer fires) it
  reads the clock again, stores the reading in the cursor and starts the wrapped call. The
  state lists the calls that wait, with the time their timer is due, and the calls started,
  with their start time. A timer never fires before it is due.
\<close>

record limiter =
  lastCall :: int
  waiting :: "(nat \<times> int) list"
  started :: "(nat \<times> int) list"

definition limiter_init :: limiter where
  "limiter_init = \<lparr>lastCall = 0, waiting = [], started = []\<rparr>"

definition rl_resume :: "nat \<Rightarrow> int \<Rightarrow> limiter \<Rightarrow> limiter" where
  "rl_resume c now L = L\<lparr>lastCall := now, started := started L @ [(c, now)]\<rparr>"

definition rl_call :: "int \<Rightarrow> nat \<Rightarrow> int \<Rightarrow> limiter \<Rightarrow> limiter" where
  "rl_call delay c now L =
     (let timeSinceLastCall = now - lastCall L
      in if timeSinceLastCall < delay
         then L\<lparr>waiting := waiting L @ [(c, now + (delay - timeSinceLastCall))]\<rparr>
         else rl_resume c now L)"

definition rl_timer :: "nat \<Rightarrow> int \<Rightarrow> limiter \<Rightarrow> limiter" where
  "rl_timer c now L =
     (case map_of (waiting L) c of
        None \<Rightarrow> L
      | Some due \<Rightarrow>
          if due \<le> now
          then rl_resume c now (L\<lparr>waiting := filter (\<lambda>w. fst w \<noteq> c) (waiting L)\<rparr>)
          else L)"

datatype rl_event = Call nat int | Timer nat int

fun rl_step :: "int \<Rightarrow> rl_event \<Rightarrow> limiter \<Rightarrow> limiter" where
  "rl_step delay (Call c now) L = rl_call delay c now L"
| "rl_step delay (Timer c now) L = rl_timer c now L"

definition withRateLimit :: "int \<Rightarrow> rl_event list \<Rightarrow> limiter" where
  "withRateLimit delay evs = fold (rl_step delay) evs limiter_init"

section \<open>Example inputs\<close>

definition ex_blank :: app where
  "ex_blank = (mounted (asc ''en'') translations_en (asc ''s-1'') 1000)\<lparr>inputMessage := asc '' ''\<rparr>"

definition ex_question :: app where
  "ex_question = (mounted (asc ''en'') translations_en (asc ''s-1'') 1000)
     \<lparr>inputMessage := asc ''Am I eligible for EITC?''\<rparr>"

definition ex_reply :: chat_response where
  "ex_reply = \<lparr>resp_response = asc ''Yes, based on...'',
     resp_timestamp = asc ''2025-01-01T00:00:00Z'', resp_session_id = asc ''s-1''\<rparr>"

definition ex_error :: "int \<Rightarrow> jsstring option \<Rightarrow> api_error" where
  "ex_error st msg =
     \<lparr>err_response = Some \<lparr>status = st, data = Some \<lparr>data_message = msg\<rparr>\<rparr>,
      err_request = True, err_message = None\<rparr>"

definition ex_flaky :: "nat \<Rightarrow> api_error + nat" where
  "ex_flaky k = (if k < 3 then Inl (ex_error 500 None) else Inr 7)"

definition ex_down :: "nat \<Rightarrow> api_error + nat" where
  "ex_down k = Inl (ex_error (500 + int k) None)"

definition ex_rejecting :: "nat \<Rightarrow> api_error + nat" where
  "ex_rejecting k = (if k = 1 then Inl (ex_error 404 None) else Inr 7)"

definition ex_answered :: app where
  "ex_answered =
     settle (Success ex_reply :: unit outcome) 1005 (handleSendMessage 1001 ex_question)"

definition ex_client :: "string \<Rightarrow> client" where
  "ex_client path =
     (let storage = (\<lambda>k. None)(token_key := Some (asc ''tok''))
      in \<lparr>localStorage = storage, pathname = path, href_assigned = None,
          authState = AuthProvider_mount storage\<rparr>)"


text \<open>A language change between submit and resolution, ending in success or in failure.\<close>

definition ex_switched :: app where
  "ex_switched =
     run [(Submit, 1001), (ChangeLanguage (asc ''es''), 1002),
          (Settle (Success ex_reply :: unit outcome), 1005)] ex_question"

definition ex_switched_failed :: app where
  "ex_switched_failed =
     run [(Submit, 1001), (ChangeLanguage (asc ''es''), 1002),
          (Settle (Failure ()), 1005)] ex_question"

section \<open>Submitting a message\<close>

lemma trim_empty_iff: "trim s = [] \<longleftrightarrow> (\<forall>c \<in> set s. is_js_space c)"
proof
  assume "trim s = []"
  then have "dropWhile is_js_space (rev (dropWhile is_js_space s)) = []"
    by (simp add: trim_def)
  then have "\<forall>c \<in> set (dropWhile is_js_space s). is_js_space c"
    by (simp add: dropWhile_eq_Nil_conv)
  then have "dropWhile is_js_space (dropWhile is_js_space s) = []"
    by (simp only: dropWhile_eq_Nil_conv)
  then have "dropWhile is_js_space s = []"
    by (simp only: dropWhile_idem)
  then show "\<forall>c \<in> set s. is_js_space c"
    by (simp only: dropWhile_eq_Nil_conv)
next
  assume "\<forall>c \<in> set s. is_js_space c"
  then have d: "dropWhile is_js_space s = []"
    by (simp only: dropWhile_eq_Nil_conv)
  show "trim s = []"
    by (simp only: trim_def d rev.simps dropWhile.simps)
qed

lemma ex_question_trim: "trim (inputMessage ex_question) = asc ''Am I eligible for EITC?''"
  by (simp add: ex_question_def trim_def asc_def is_js_space_def)

lemma ex_blank_space: "\<forall>c \<in> set (inputMessage ex_blank). is_js_space c"
  by (simp add: ex_blank_def asc_def is_js_space_def)

lemma ex_question_fields:
  "\<not> isLoading ex_question" "language ex_question = asc ''en''"
  "currentTable ex_question = translations_en"
  "sessionId ex_question = asc ''s-1''" "feedback_requests ex_question = []"
  "messages ex_question = [welcomeMessage translations_en 1000]"
  "conversationCount (sessionData ex_question) = 0"
  by (simp_all add: ex_question_def mounted_def welcome_effect_def initialSessionData_def)

lemma ex_question_pending: "isLoading (handleSendMessage 1001 ex_question)"
  by (simp add: handleSendMessage_def ex_question_trim ex_question_fields
      chatMutation_mutate_def Let_def asc_def)

text \<open>
  C3. In every state, a submit whose input text is empty or consists of white space only,
  or that comes while the chat mutation is loading, changes nothing: the state is the same,
  so the log keeps its length and no chat request is posted.
\<close>

theorem submit_noop:
  assumes "(\<forall>c \<in> set (inputMessage s). is_js_space c) \<or> isLoading s"
  shows "handleSendMessage now s = s
    \<and> length (messages (handleSendMessage now s)) = length (messages s)
    \<and> chat_requests (handleSendMessage now s) = chat_requests s"
  using assms by (auto simp add: handleSendMessage_def trim_empty_iff)

theorem submit_noop_witness:
  "((\<forall>c \<in> set (inputMessage ex_blank). is_js_space c) \<or> isLoading ex_blank)
   \<and> handleSendMessage 1001 ex_blank = ex_blank
   \<and> isLoading (handleSendMessage 1001 ex_question)
   \<and> handleSendMessage 1002 (handleSendMessage 1001 ex_question)
       = handleSendMessage 1001 ex_question"
  using ex_blank_space ex_question_pending submit_noop [of ex_blank 1001]
    submit_noop [of "handleSendMessage 1001 ex_question" 1002]
  by simp

text \<open>While a request is pending, no operation other than its resolution ends it or
  changes the table its callbacks see; and no operation other than its resolution and a
  language selection touches the log.\<close>

lemma step_keeps_pending:
  assumes "isLoading s" and "\<not> is_settle (fst ev)"
  shows "isLoading (step ev s) \<and> mutationTable (step ev s) = mutationTable s"
proof (cases ev)
  case (Pair e now)
  with assms show ?thesis
    by (cases e)
      (auto simp add: handleSendMessage_def changeLanguage_def welcome_effect_def
         handleFeedback_def feedbackMutation_mutate_def Let_def split: option.splits)
qed

lemma step_keeps_log:
  assumes "isLoading s" and "\<not> is_settle (fst ev)" and "\<not> is_language_change (fst ev)"
  shows "messages (step ev s) = messages s"
proof (cases ev)
  case (Pair e now)
  with assms show ?thesis
    by (cases e)
      (auto simp add: handleSendMessage_def handleFeedback_def feedbackMutation_mutate_def
         Let_def)
qed

lemma run_keeps_pending:
  "isLoading s \<Longrightarrow> list_all (\<lambda>ev. \<not> is_settle (fst ev)) evs \<Longrightarrow>
     isLoading (run evs s) \<and> mutationTable (run evs s) = mutationTable s"
  unfolding run_def
proof (induction evs arbitrary: s)
  case Nil
  then show ?case by simp
next
  case (Cons ev evs)
  then have "isLoading (step ev s) \<and> mutationTable (step ev s) = mutationTable s"
    using step_keeps_pending [of s ev] by simp
  with Cons show ?case by simp
qed

lemma run_keeps_log:
  "isLoading s \<Longrightarrow> list_all (\<lambda>ev. \<not> is_settle (fst ev)) evs \<Longrightarrow>
     list_all (\<lambda>ev. \<not> is_language_change (fst ev)) evs \<Longrightarrow>
     messages (run evs s) = messages s"
  unfolding run_def
proof (induction evs arbitrary: s)
  case Nil
  then show ?case by simp
next
  case (Cons ev evs)
  then have "isLoading (step ev s)" and "messages (step ev s) = messages s"
    using step_keeps_pending [of s ev] step_keeps_log [of s ev] by simp_all
  with Cons show ?case by simp
qed

lemma settle_pending:
  assumes "isLoading s"
  shows "\<exists>a. messages (settle out now s) = messages s @ [a]
      \<and> \<not> isLoading (settle out now s)
      \<and> msgType a = Assistant \<and> \<not> isWelcome a
      \<and> (case out of
            Success r \<Rightarrow> \<not> isError a \<and> content a = Some (resp_response r)
          | Failure e \<Rightarrow>
              isError a \<and> content a = Some (js_or_opt (error_response (mutationTable s))
                (asc ''I apologize, but I encountered an error. Please try again or contact support if the problem persists.'')))"
  using assms
  by (cases out) (simp_all add: settle_def onSuccess_def onError_def Let_def)

text \<open>
  C1, as stated, fails: a question is submitted, Spanish is selected while the request is
  pending, and the request succeeds. The log then holds the Spanish welcome message and
  the answer; the user message is gone.
\<close>

theorem submitted_message_lost_counterexample:
  "trim (inputMessage ex_question) \<noteq> [] \<and> \<not> isLoading ex_question
   \<and> map msgId (messages ex_switched) = [IdStr (asc ''welcome''), IdNum 1006]
   \<and> map msgType (messages ex_switched) = [Assistant, Assistant]
   \<and> User \<notin> set (map msgType (messages ex_switched))"
  by (simp add: ex_switched_def run_def settle_def onSuccess_def changeLanguage_def
      translations_lookup_def welcome_effect_def welcomeMessage_def handleSendMessage_def
      chatMutation_mutate_def ex_question_trim ex_question_fields Let_def asc_def)

text \<open>When the request fails instead, the error text is the one of the table in force at
  the submit, the English one here, behind the Spanish welcome message.\<close>

lemma error_text_of_submit_time:
  "map content (messages ex_switched_failed)
     = [welcome_message translations_es, error_response translations_en]"
  by (simp add: ex_switched_failed_def run_def settle_def onError_def changeLanguage_def
      translations_lookup_def welcome_effect_def welcomeMessage_def handleSendMessage_def
      chatMutation_mutate_def ex_question_trim ex_question_fields Let_def js_or_opt_def
      js_or_def translations_en_def asc_def)

text \<open>
  C1, amended. A submit that is accepted (the trimmed input is not empty and nothing is
  loading) appends the user message and posts the request. Whatever input edits, further
  submits, rating clicks and language selections follow, the request stays pending, and
  when it settles exactly one assistant message is appended at the end of the log: with
  the text of the response on success, and flagged \<open>isError\<close> on failure, with the error
  text of the table in force at the submit or, when that table has none, the built-in
  English text. When no language was selected in between, the log is then the log before
  the submit followed by the user message and this terminal message.
\<close>

theorem exchange_terminal_message:
  assumes "trim (inputMessage s) \<noteq> []" and "\<not> isLoading s"
    and "list_all (\<lambda>ev. \<not> is_settle (fst ev)) evs"
  shows "\<exists>u a. messages (handleSendMessage t0 s) = messages s @ [u]
      \<and> msgType u = User \<and> content u = Some (trim (inputMessage s))
      \<and> chat_requests (handleSendMessage t0 s) = chat_requests s @
          [\<lparr>req_message = Some (trim (inputMessage s)), req_session_id = sessionId s,
            req_language = language s\<rparr>]
      \<and> isLoading (run evs (handleSendMessage t0 s))
      \<and> messages (settle out t1 (run evs (handleSendMessage t0 s)))
          = messages (run evs (handleSendMessage t0 s)) @ [a]
      \<and> \<not> isLoading (settle out t1 (run evs (handleSendMessage t0 s)))
      \<and> msgType a = Assistant \<and> \<not> isWelcome a
      \<and> (case out of
            Success r \<Rightarrow> \<not> isError a \<and> content a = Some (resp_response r)
          | Failure e \<Rightarrow>
              isError a \<and> content a = Some (js_or_opt (error_response (currentTable s))
                (asc ''I apologize, but I encountered an error. Please try again or contact support if the problem persists.'')))
      \<and> (list_all (\<lambda>ev. \<not> is_language_change (fst ev)) evs \<longrightarrow>
           messages (settle out t1 (run evs (handleSendMessage t0 s))) = messages s @ [u, a])"
proof -
  let ?s1 = "handleSendMessage t0 s"
  let ?u = "\<lparr>msgId = IdNum t0, msgType = User, content = Some (trim (inputMessage s)),
             timestamp = ISOString t0, isWelcome = False, isError = False,
             msgSessionId = None\<rparr>"
  have s1: "messages ?s1 = messages s @ [?u]" "isLoading ?s1"
    "mutationTable ?s1 = currentTable s"
    "chat_requests ?s1 = chat_requests s @
       [\<lparr>req_message = Some (trim (inputMessage s)), req_session_id = sessionId s,
         req_language = language s\<rparr>]"
    using assms(1,2) by (simp_all add: handleSendMessage_def chatMutation_mutate_def Let_def)
  have p: "isLoading (run evs ?s1)" "mutationTable (run evs ?s1) = currentTable s"
    using run_keeps_pending [OF s1(2) assms(3)] s1(3) by simp_all
  from settle_pending [OF p(1), of out t1] obtain a where
    a: "messages (settle out t1 (run evs ?s1)) = messages (run evs ?s1) @ [a]"
      "\<not> isLoading (settle out t1 (run evs ?s1))"
      "msgType a = Assistant" "\<not> isWelcome a"
      "(case out of
            Success r \<Rightarrow> \<not> isError a \<and> content a = Some (resp_response r)
          | Failure e \<Rightarrow>
              isError a \<and> content a = Some (js_or_opt (error_response (mutationTable (run evs ?s1)))
                (asc ''I apologize, but I encountered an error. Please try again or contact support if the problem persists.'')))"
    by blast
  have q: "messages (settle out t1 (run evs ?s1)) = messages s @ [?u, a]"
    if "list_all (\<lambda>ev. \<not> is_language_change (fst ev)) evs"
    using run_keeps_log [OF s1(2) assms(3) that] a(1) s1(1) by simp
  note a5 = a(5) [unfolded p(2)]
  show ?thesis
    apply (rule exI [of _ ?u])
    apply (rule exI [of _ a])
    using s1 p(1) a(1-4) a5 q by simp
qed

lemma ex_quiet_events:
  "trim (inputMessage ex_question) \<noteq> []" "\<not> isLoading ex_question"
  "list_all (\<lambda>ev. \<not> is_settle (fst ev))
      [(SetInput (asc ''x'') :: unit event, 1002 :: int), (Submit, 1003)]"
  "list_all (\<lambda>ev. \<not> is_language_change (fst ev))
      [(SetInput (asc ''x'') :: unit event, 1002 :: int), (Submit, 1003)]"
  by (simp_all add: ex_question_trim asc_def ex_question_fields)

theorem exchange_terminal_message_witness:
  "trim (inputMessage ex_question) \<noteq> [] \<and> \<not> isLoading ex_question
   \<and> (\<exists>u a. messages (settle (Success ex_reply :: unit outcome) 1005
                  (run [(SetInput (asc ''x'') :: unit event, 1002), (Submit, 1003)]
                     (handleSendMessage 1001 ex_question)))
          = messages ex_question @ [u, a]
        \<and> msgType u = User \<and> msgType a = Assistant)"
proof -
  have "\<exists>u a. messages (settle (Success ex_reply :: unit outcome) 1005
                  (run [(SetInput (asc ''x'') :: unit event, 1002), (Submit, 1003)]
                     (handleSendMessage 1001 ex_question)))
          = messages ex_question @ [u, a]
        \<and> msgType u = User \<and> msgType a = Assistant"
    using exchange_terminal_message [OF ex_quiet_events(1) ex_quiet_events(2) ex_quiet_events(3), of 1001 "Success ex_reply" 1005]
  proof (elim exE conjE)
    fix u a
    assume "msgType u = User" and "msgType a = Assistant"
      and "list_all (\<lambda>ev. \<not> is_language_change (fst ev))
             [(SetInput (asc ''x'') :: unit event, 1002 :: int), (Submit, 1003)] \<longrightarrow>
           messages (settle (Success ex_reply :: unit outcome) 1005
                  (run [(SetInput (asc ''x'') :: unit event, 1002), (Submit, 1003)]
                     (handleSendMessage 1001 ex_question)))
             = messages ex_question @ [u, a]"
    with ex_quiet_events(4) show ?thesis
      by (rule_tac x = u in exI, rule_tac x = a in exI) (simp only: simp_thms)
  qed
  with ex_quiet_events(1) ex_quiet_events(2) show ?thesis by (simp only: simp_thms)
qed

section \<open>Retry with backoff\<close>

lemma withRetry_loop_success:
  assumes "N - a = n" "a \<le> N" "N \<le> maxR" "1 \<le> a" "invocations tr = a - 1"
    and "\<forall>k. a \<le> k \<and> k < N \<longrightarrow> (\<exists>e. f k = Inl e \<and> \<not> is_client_error e)"
    and "f N = Inr v"
  shows "withRetry_loop f maxR d a le tr =
    (Inr v, tr\<lparr>invocations := N, delays := delays tr @ map (\<lambda>k. d * 2 ^ (k - 1)) [a..<N]\<rparr>)"
  using assms
proof (induction n arbitrary: a le tr)
  case 0
  then have "a = N" by simp
  with 0 show ?case
    by (subst withRetry_loop.simps) (simp add: Let_def)
next
  case (Suc n)
  then have lt: "a < N" by simp
  with Suc.prems obtain e where e: "f a = Inl e" "\<not> is_client_error e" by auto
  let ?tr = "tr\<lparr>invocations := a, delays := delays tr @ [d * 2 ^ (a - 1)]\<rparr>"
  have step: "withRetry_loop f maxR d a le tr = withRetry_loop f maxR d (a + 1) (Some e) ?tr"
    using lt Suc.prems e by (subst withRetry_loop.simps) (simp add: Let_def)
  have "withRetry_loop f maxR d (a + 1) (Some e) ?tr =
    (Inr v, ?tr\<lparr>invocations := N,
       delays := delays ?tr @ map (\<lambda>k. d * 2 ^ (k - 1)) [a + 1..<N]\<rparr>)"
    using Suc.prems lt by (intro Suc.IH) auto
  with step lt show ?case by (simp add: upt_conv_Cons)
qed

lemma withRetry_loop_exhaust:
  assumes "maxR - a = n" "a \<le> maxR" "1 \<le> a" "invocations tr = a - 1"
    and "\<forall>k. a \<le> k \<and> k \<le> maxR \<longrightarrow> (\<exists>e. f k = Inl e \<and> \<not> is_client_error e)"
    and "f maxR = Inl e"
  shows "withRetry_loop f maxR d a le tr =
    (Inl (Some e),
     tr\<lparr>invocations := maxR, delays := delays tr @ map (\<lambda>k. d * 2 ^ (k - 1)) [a..<maxR]\<rparr>)"
  using assms
proof (induction n arbitrary: a le tr)
  case 0
  then have a: "a = maxR" by simp
  from 0 a have ne: "\<not> is_client_error e" by auto
  have "withRetry_loop f maxR d a le tr =
      withRetry_loop f maxR d (maxR + 1) (Some e) (tr\<lparr>invocations := maxR\<rparr>)"
    using 0 a ne by (subst withRetry_loop.simps) (simp add: Let_def)
  also have "\<dots> = (Inl (Some e), tr\<lparr>invocations := maxR\<rparr>)"
    by (subst withRetry_loop.simps) simp
  finally show ?case using a by simp
next
  case (Suc n)
  then have lt: "a < maxR" by simp
  with Suc.prems obtain e' where e': "f a = Inl e'" "\<not> is_client_error e'" by auto
  let ?tr = "tr\<lparr>invocations := a, delays := delays tr @ [d * 2 ^ (a - 1)]\<rparr>"
  have step: "withRetry_loop f maxR d a le tr = withRetry_loop f maxR d (a + 1) (Some e') ?tr"
    using lt Suc.prems e' by (subst withRetry_loop.simps) (simp add: Let_def)
  have "withRetry_loop f maxR d (a + 1) (Some e') ?tr =
    (Inl (Some e), ?tr\<lparr>invocations := maxR,
       delays := delays ?tr @ map (\<lambda>k. d * 2 ^ (k - 1)) [a + 1..<maxR]\<rparr>)"
    using Suc.prems lt by (intro Suc.IH) auto
  with step lt show ?case by (simp add: upt_conv_Cons)
qed

text \<open>With no attempt allowed the wrapped call is never invoked and the wrapper throws
  \<open>undefined\<close>.\<close>

lemma withRetry_zero: "withRetry f 0 d = (Inl None, \<lparr>invocations = 0, delays = []\<rparr>)"
  unfolding withRetry_def by (subst withRetry_loop.simps) simp

lemma ex_error_not_client: "500 \<le> st \<Longrightarrow> \<not> is_client_error (ex_error st m)"
  by (simp add: is_client_error_def ex_error_def)

text \<open>
  C4. If the first \<open>N - 1\<close> invocations of the wrapped call fail with a failure that is not a
  client error and invocation \<open>N\<close> succeeds, with \<open>1 \<le> N \<le> maxAttempts\<close>, then the
  wrapper returns that result, the call has been invoked exactly \<open>N\<close> times, and the delays
  inserted are \<open>baseDelay * 2 ^ (k - 1)\<close> after attempt \<open>k\<close>, for \<open>k = 1, ..., N - 1\<close>. If
  all \<open>maxAttempts\<close> invocations fail in that way, the failure of the last invocation is
  thrown, after \<open>maxAttempts\<close> invocations and \<open>maxAttempts - 1\<close> delays.
\<close>

theorem withRetry_backoff:
  "(1 \<le> N \<and> N \<le> maxAttempts
      \<and> (\<forall>k. 1 \<le> k \<and> k < N \<longrightarrow> (\<exists>e. f k = Inl e \<and> \<not> is_client_error e))
      \<and> f N = Inr v
    \<longrightarrow> withRetry f maxAttempts baseDelay =
          (Inr v, \<lparr>invocations = N, delays = map (\<lambda>k. baseDelay * 2 ^ (k - 1)) [1..<N]\<rparr>))
   \<and> (1 \<le> maxAttempts
      \<and> (\<forall>k. 1 \<le> k \<and> k \<le> maxAttempts \<longrightarrow> (\<exists>e. f k = Inl e \<and> \<not> is_client_error e))
      \<and> f maxAttempts = Inl e
    \<longrightarrow> withRetry f maxAttempts baseDelay =
          (Inl (Some e),
           \<lparr>invocations = maxAttempts,
            delays = map (\<lambda>k. baseDelay * 2 ^ (k - 1)) [1..<maxAttempts]\<rparr>))"
proof (intro conjI impI)
  assume "1 \<le> N \<and> N \<le> maxAttempts
      \<and> (\<forall>k. 1 \<le> k \<and> k < N \<longrightarrow> (\<exists>e. f k = Inl e \<and> \<not> is_client_error e))
      \<and> f N = Inr v"
  then show "withRetry f maxAttempts baseDelay =
          (Inr v, \<lparr>invocations = N, delays = map (\<lambda>k. baseDelay * 2 ^ (k - 1)) [1..<N]\<rparr>)"
    unfolding withRetry_def
    by (subst withRetry_loop_success [where N = N and v = v and n = "N - 1"]) simp_all
next
  assume "1 \<le> maxAttempts
      \<and> (\<forall>k. 1 \<le> k \<and> k \<le> maxAttempts \<longrightarrow> (\<exists>e. f k = Inl e \<and> \<not> is_client_error e))
      \<and> f maxAttempts = Inl e"
  then show "withRetry f maxAttempts baseDelay =
          (Inl (Some e),
           \<lparr>invocations = maxAttempts,
            delays = map (\<lambda>k. baseDelay * 2 ^ (k - 1)) [1..<maxAttempts]\<rparr>)"
    unfolding withRetry_def
    by (subst withRetry_loop_exhaust [where e = e and n = "maxAttempts - 1"]) simp_all
qed

theorem withRetry_backoff_witness:
  "ex_flaky 3 = Inr 7
   \<and> withRetry ex_flaky 3 1000 = (Inr 7, \<lparr>invocations = 3, delays = [1000, 2000]\<rparr>)
   \<and> ex_down 3 = Inl (ex_error 503 None)
   \<and> withRetry ex_down 3 1000
       = (Inl (Some (ex_error 503 None)), \<lparr>invocations = 3, delays = [1000, 2000]\<rparr>)"
proof -
  have f1: "\<forall>k. 1 \<le> k \<and> k < 3 \<longrightarrow> (\<exists>e. ex_flaky k = Inl e \<and> \<not> is_client_error e)"
    by (simp add: ex_flaky_def ex_error_not_client)
  have f2: "ex_flaky 3 = Inr 7"
    by (simp add: ex_flaky_def)
  have d1: "\<forall>k. 1 \<le> k \<and> k \<le> 3 \<longrightarrow> (\<exists>e. ex_down k = Inl e \<and> \<not> is_client_error e)"
    by (simp add: ex_down_def ex_error_not_client)
  have d2: "ex_down 3 = Inl (ex_error 503 None)"
    by (simp add: ex_down_def)
  have up: "map (\<lambda>k. (1000::int) * 2 ^ (k - Suc 0)) [Suc 0..<3] = [1000, 2000]"
    by (simp add: upt_rec)
  show ?thesis
    using f1 f2 d1 d2
      withRetry_backoff [of 3 3 ex_flaky 7 1000]
      withRetry_backoff [of _ 3 ex_down _ 1000 "ex_error 503 None"]
    by (simp add: up)
qed

text \<open>
  C5. If the first invocation of the wrapped call fails with a failure whose response has
  a status from 400 to 499, the wrapper throws that failure at once: the call has been
  invoked exactly once and no delay has been inserted.
\<close>

theorem withRetry_client_error:
  assumes "1 \<le> maxAttempts" and "f 1 = Inl e"
    and "err_response e = Some r" and "400 \<le> status r" and "status r < 500"
  shows "withRetry f maxAttempts baseDelay = (Inl (Some e), \<lparr>invocations = 1, delays = []\<rparr>)"
  using assms unfolding withRetry_def
  by (subst withRetry_loop.simps) (simp add: Let_def is_client_error_def)

theorem withRetry_client_error_witness:
  "ex_rejecting 1 = Inl (ex_error 404 None)
   \<and> withRetry ex_rejecting 3 1000
       = (Inl (Some (ex_error 404 None)), \<lparr>invocations = 1, delays = []\<rparr>)"
proof -
  have h: "ex_rejecting 1 = Inl (ex_error 404 None)"
    by (simp add: ex_rejecting_def)
  have r: "err_response (ex_error 404 None)
      = Some \<lparr>status = 404, data = Some \<lparr>data_message = None\<rparr>\<rparr>"
    by (simp add: ex_error_def)
  show ?thesis
    using h withRetry_client_error [of 3 ex_rejecting "ex_error 404 None" _ 1000, OF _ h r]
    by simp
qed

section \<open>The session and the log under the operations of the page\<close>

lemma ex_answered_messages:
  "messages ex_answered =
     [welcomeMessage translations_en 1000,
      \<lparr>msgId = IdNum 1001, msgType = User,
       content = Some (asc ''Am I eligible for EITC?''),
       timestamp = ISOString 1001, isWelcome = False, isError = False, msgSessionId = None\<rparr>,
      \<lparr>msgId = IdNum 1006, msgType = Assistant, content = Some (asc ''Yes, based on...''),
       timestamp = ServerTime (asc ''2025-01-01T00:00:00Z''), isWelcome = False,
       isError = False, msgSessionId = Some (asc ''s-1'')\<rparr>]"
  by (simp add: ex_answered_def settle_def onSuccess_def handleSendMessage_def
      chatMutation_mutate_def ex_question_trim ex_question_fields Let_def ex_reply_def asc_def)

lemma ex_answered_fields:
  "map msgId (messages ex_answered) = [IdStr (asc ''welcome''), IdNum 1001, IdNum 1006]"
  "language ex_answered = asc ''en''" "sessionId ex_answered = asc ''s-1''"
  "feedback_requests ex_answered = []"
  "conversationCount (sessionData ex_answered) = 0"
  by (simp_all add: ex_answered_messages welcomeMessage_def)
    (simp_all add: ex_answered_def settle_def onSuccess_def handleSendMessage_def
      chatMutation_mutate_def ex_question_trim ex_question_fields Let_def asc_def)

lemma ex_answered_clicks: "offered_clicks ex_answered = [(IdNum 1006, 5), (IdNum 1006, 1)]"
  by (simp add: offered_clicks_def bubble_clicks_def feedback_offered_def ex_answered_messages
      welcomeMessage_def)







lemma changeLanguage_messages:
  "messages (changeLanguage code now s) =
     (case translations_lookup code of
        None \<Rightarrow> messages s
      | Some t \<Rightarrow> if code = language s then messages s else [welcomeMessage t now])"
  by (simp add: changeLanguage_def welcome_effect_def split: option.splits)







lemma lookup_constructor: "translations_lookup (asc ''constructor'') = Some no_entries"
  by (simp add: translations_lookup_def object_prototype_keys_def asc_def)

lemma lookup_fr: "translations_lookup (asc ''fr'') = None"
  by (simp add: translations_lookup_def object_prototype_keys_def asc_def)

text \<open>The name of an inherited property is accepted as a language: the log is replaced by
  a welcome message without content.\<close>

lemma inherited_key_resets_log:
  "messages (changeLanguage (asc ''constructor'') 2000 ex_answered)
     = [welcomeMessage no_entries 2000]
   \<and> content (welcomeMessage no_entries 2000) = None
   \<and> messages (changeLanguage (asc ''fr'') 2000 ex_answered) = messages ex_answered"
  by (simp add: changeLanguage_messages lookup_constructor lookup_fr ex_answered_fields
      welcomeMessage_def no_entries_def) (simp add: asc_def)



section \<open>Quick feedback\<close>

lemma offered_clicks_sound:
  "(mid, r) \<in> set (offered_clicks s) \<Longrightarrow>
     r \<noteq> 0 \<and> (\<exists>m \<in> set (messages s). msgId m = mid \<and> msgType m = Assistant
                  \<and> \<not> isWelcome m \<and> \<not> isError m)"
  by (auto simp add: offered_clicks_def bubble_clicks_def feedback_offered_def
      split: if_splits intro: role.exhaust)

text \<open>
  C7, as stated, fails: \<open>handleFeedback\<close> posts a feedback request for the welcome message
  and for an id that no message of the log has.
\<close>

theorem handleFeedback_unchecked_counterexample:
  "feedback_requests (handleFeedback (IdStr (asc ''welcome'')) 5 ex_answered)
     = [\<lparr>fb_session_id = asc ''s-1'', fb_rating = 5, fb_feedback_text = [],
         fb_message_id = Some (IdStr (asc ''welcome''))\<rparr>]
   \<and> feedback_requests (handleFeedback (IdNum 42) 1 ex_answered)
     = [\<lparr>fb_session_id = asc ''s-1'', fb_rating = 1, fb_feedback_text = [],
         fb_message_id = Some (IdNum 42)\<rparr>]
   \<and> IdNum 42 \<notin> set (map msgId (messages ex_answered))"
  by (simp add: handleFeedback_def feedbackMutation_mutate_def Let_def ex_answered_fields)

text \<open>
  C7, amended. \<open>handleFeedback\<close> does not look at the log: with a rating other than 0 it
  posts exactly one feedback request carrying the given message id, the rating and the
  session id, and leaves the log as it is. The rating buttons exist only under messages of
  the log that are assistant messages, not the welcome message and not an error message,
  so every click the page offers carries the id of such a message and a rating other
  than 0.
\<close>

theorem quick_feedback_gate:
  "(r \<noteq> 0 \<longrightarrow>
      feedback_requests (handleFeedback mid r s) = feedback_requests s @
        [\<lparr>fb_session_id = sessionId s, fb_rating = r, fb_feedback_text = [],
          fb_message_id = Some mid\<rparr>]
      \<and> messages (handleFeedback mid r s) = messages s)
   \<and> ((mid, r) \<in> set (offered_clicks s) \<longrightarrow>
        r \<noteq> 0 \<and> (\<exists>m \<in> set (messages s). msgId m = mid \<and> msgType m = Assistant
                     \<and> \<not> isWelcome m \<and> \<not> isError m))"
  using offered_clicks_sound [of mid r s]
  by (auto simp add: handleFeedback_def feedbackMutation_mutate_def Let_def)

theorem quick_feedback_gate_witness:
  "(IdNum 1006, 5) \<in> set (offered_clicks ex_answered)
   \<and> feedback_requests (handleFeedback (IdNum 1006) 5 ex_answered)
       = [\<lparr>fb_session_id = asc ''s-1'', fb_rating = 5, fb_feedback_text = [],
           fb_message_id = Some (IdNum 1006)\<rparr>]
   \<and> IdNum 1006 \<in> set (map msgId (messages ex_answered))"
proof -
  have c: "(IdNum 1006, 5) \<in> set (offered_clicks ex_answered)"
    by (simp add: ex_answered_clicks)
  have "feedback_requests (handleFeedback (IdNum 1006) 5 ex_answered)
       = feedback_requests ex_answered @
         [\<lparr>fb_session_id = sessionId ex_answered, fb_rating = 5, fb_feedback_text = [],
           fb_message_id = Some (IdNum 1006)\<rparr>]"
    using quick_feedback_gate [of 5 "IdNum 1006" ex_answered] by simp
  with c show ?thesis
    by (simp add: ex_answered_fields)
qed

section \<open>Error messages for the user\<close>

text \<open>
  C10, as stated, fails: for status 404 the message of the body is not used.
\<close>

theorem handleAPIError_fixed_message_counterexample:
  "handleAPIError (ex_error 404 (Some (asc ''No such session'')))
     = Inr (asc ''The requested resource was not found.'')
   \<and> handleAPIError (ex_error 404 (Some (asc ''No such session'')))
     \<noteq> Inr (asc ''No such session'')"
  by (simp add: handleAPIError_def ex_error_def asc_def)

text \<open>
  C10, amended. For an error response with a status from 400 to 499 and a body that is not
  \<open>null\<close>: for every status other than 401, 403, 404 and 429 the result is the message of
  the body when that is a non-empty string, and otherwise a generic text, one for 400 and
  one for the remaining statuses; for 401, 403, 404 and 429 the result is a fixed text for
  that status, whatever the body carries.
\<close>

theorem handleAPIError_client_errors:
  assumes "err_response error = Some r" and "400 \<le> status r" and "status r < 500"
    and "data r = Some p"
  shows "(status r \<notin> {401, 403, 404, 429} \<and> data_message p = Some m \<and> m \<noteq> []
            \<longrightarrow> handleAPIError error = Inr m)
     \<and> (status r \<notin> {401, 403, 404, 429}
          \<and> (data_message p = None \<or> data_message p = Some [])
            \<longrightarrow> handleAPIError error =
                Inr (if status r = 400 then asc ''Invalid request. Please check your input.''
                     else asc ''An unexpected error occurred.''))
     \<and> (status r = 401 \<longrightarrow>
          handleAPIError error = Inr (asc ''Authentication required. Please log in.''))
     \<and> (status r = 403 \<longrightarrow> handleAPIError error =
            Inr (asc ''Access denied. You do not have permission to perform this action.''))
     \<and> (status r = 404 \<longrightarrow>
          handleAPIError error = Inr (asc ''The requested resource was not found.''))
     \<and> (status r = 429 \<longrightarrow> handleAPIError error =
            Inr (asc ''Too many requests. Please wait a moment and try again.''))"
  using assms
  by (auto simp add: handleAPIError_def message_or_def js_or_opt_def js_or_def)

lemma ex_error_response:
  "err_response (ex_error st m) = Some \<lparr>status = st, data = Some \<lparr>data_message = m\<rparr>\<rparr>"
  by (simp add: ex_error_def)

theorem handleAPIError_client_errors_witness:
  "handleAPIError (ex_error 400 (Some (asc ''Income is required'')))
     = Inr (asc ''Income is required'')
   \<and> handleAPIError (ex_error 422 None) = Inr (asc ''An unexpected error occurred.'')
   \<and> handleAPIError (ex_error 429 (Some (asc ''Slow down'')))
       = Inr (asc ''Too many requests. Please wait a moment and try again.'')"
proof -
  have n: "asc ''Income is required'' \<noteq> []"
    by (simp add: asc_def)
  have "handleAPIError (ex_error 400 (Some (asc ''Income is required'')))
      = Inr (asc ''Income is required'')"
    using n handleAPIError_client_errors
      [OF ex_error_response, of 400 "Some (asc ''Income is required'')"
        "\<lparr>data_message = Some (asc ''Income is required'')\<rparr>" "asc ''Income is required''"]
    by simp
  moreover have "handleAPIError (ex_error 422 None) = Inr (asc ''An unexpected error occurred.'')"
    using handleAPIError_client_errors
      [OF ex_error_response, of 422 None "\<lparr>data_message = None\<rparr>"]
    by simp
  moreover have "handleAPIError (ex_error 429 (Some (asc ''Slow down'')))
       = Inr (asc ''Too many requests. Please wait a moment and try again.'')"
    using handleAPIError_client_errors
      [OF ex_error_response, of 429 "Some (asc ''Slow down'')"
        "\<lparr>data_message = Some (asc ''Slow down'')\<rparr>"]
    by simp
  ultimately show ?thesis by simp
qed

section \<open>Eviction of the token\<close>

text \<open>
  C8, as stated, fails: on the chat page, with a token stored and the AuthProvider
  authenticated, a 401 response leaves the AuthProvider authenticated and assigns no
  location.
\<close>

theorem interceptor_keeps_auth_flag_counterexample:
  "isAuthenticated (authState (ex_client ''/''))
   \<and> isAuthenticated (authState (response_interceptor (ex_error 401 None) (ex_client ''/'')))
   \<and> href_assigned (response_interceptor (ex_error 401 None) (ex_client ''/'')) = None"
  by (simp add: ex_client_def response_interceptor_def ex_error_def AuthProvider_mount_def
      Let_def token_key_def asc_def)

text \<open>
  C8, amended. On every error response with status 401 the interceptor removes the token
  from local storage, whatever the state, and leaves the state of the AuthProvider as it
  is. When the current path starts with \<open>/admin\<close> it assigns the location
  \<open>/admin/login\<close>, and the page loaded there mounts unauthenticated; on any other path it
  assigns no location.
\<close>

theorem interceptor_evicts_token:
  assumes "err_response error = Some r" and "status r = 401"
  shows "localStorage (response_interceptor error c) token_key = None
     \<and> authState (response_interceptor error c) = authState c
     \<and> (if prefix ''/admin'' (pathname c)
        then href_assigned (response_interceptor error c) = Some ''/admin/login''
           \<and> pathname (follow_navigation (response_interceptor error c)) = ''/admin/login''
           \<and> \<not> isAuthenticated (authState (follow_navigation (response_interceptor error c)))
        else href_assigned (response_interceptor error c) = href_assigned c
           \<and> pathname (response_interceptor error c) = pathname c)"
  using assms
  by (simp add: response_interceptor_def follow_navigation_def AuthProvider_mount_def Let_def)

theorem interceptor_evicts_token_witness:
  "localStorage (ex_client ''/admin/stats'') token_key = Some (asc ''tok'')
   \<and> localStorage (response_interceptor (ex_error 401 None) (ex_client ''/admin/stats''))
       token_key = None
   \<and> href_assigned (response_interceptor (ex_error 401 None) (ex_client ''/admin/stats''))
       = Some ''/admin/login''
   \<and> \<not> isAuthenticated (authState (follow_navigation
         (response_interceptor (ex_error 401 None) (ex_client ''/admin/stats''))))"
proof -
  have p: "prefix ''/admin'' (pathname (ex_client ''/admin/stats''))"
    by (simp add: ex_client_def Let_def)
  have t: "localStorage (ex_client ''/admin/stats'') token_key = Some (asc ''tok'')"
    by (simp add: ex_client_def Let_def)
  show ?thesis
    using p t interceptor_evicts_token
      [OF ex_error_response, of 401 None "ex_client ''/admin/stats''"]
    by simp
qed

section \<open>Rate limiting\<close>

text \<open>A call that arrives while no call waits, and after the cursor was written, starts
  no earlier than one interval after the cursor.\<close>

lemma rl_spacing_without_overlap:
  assumes "waiting L = []" and "lastCall L \<le> now" and "now \<le> t"
    and "now + (delay - (now - lastCall L)) \<le> t"
  shows "\<exists>s. started (rl_timer c t (rl_call delay c now L)) = started L @ [(c, s)]
     \<and> lastCall L + delay \<le> s"
  using assms by (auto simp add: rl_call_def rl_timer_def rl_resume_def Let_def)

text \<open>
  C6 on a burst. Three calls arrive at time 5000 through a limiter with interval 1000.
  The first starts at once. The second and the third both read the cursor 5000, both wait
  until 6000, and both start at 6000.
\<close>

theorem rate_limit_burst:
  "started (withRateLimit 1000
      [Call 1 5000, Call 2 5000, Call 3 5000, Timer 2 6000, Timer 3 6000])
     = [(1, 5000), (2, 6000), (3, 6000)]"
  by (simp add: withRateLimit_def limiter_init_def rl_call_def rl_timer_def rl_resume_def
      Let_def)

end
